theory Spec2Isabelle
  imports Main "HOL-Library.Word"
begin

unbundle bit_operations_syntax

section \<open>Stack storage (src/bthread/stack.cpp)\<close>

text \<open>
  The C types of the LP64 targets: \<open>int\<close> is a 32-bit word read with \<open>sint\<close>,
  pointers, \<open>size_t\<close>, \<open>intptr_t\<close> and the \<open>int64_t\<close> counter are 64-bit words.
  Signed arithmetic wraps around, as the compiled code does. An \<open>int\<close> passed where a
  \<open>size_t\<close> or a pointer offset is expected is sign-extended (\<open>scast\<close>).
\<close>

type_synonym cint = "32 word"
type_synonym addr = "64 word"

record StackStorage =
  bottom :: addr
  stacksize :: cint
  guardsize :: cint
  valgrind_stack_id :: "32 word"

text \<open>
  The operating system and the C library are outside the repository. Their answers are
  parameters of the model: the page size, what \<open>malloc\<close> returns for a size, what
  \<open>mmap\<close> returns for a length, what \<open>mprotect\<close> returns for an address and a
  length, whether the process runs under Valgrind and the identifier Valgrind hands out.
\<close>

record os =
  getpagesize :: cint
  malloc_ret :: "addr \<Rightarrow> addr"
  mmap_ret :: "addr \<Rightarrow> addr"
  mprotect_ret :: "addr \<Rightarrow> addr \<Rightarrow> cint"
  RunningOnValgrind :: bool
  valgrind_register :: "addr \<Rightarrow> addr \<Rightarrow> 32 word"

text \<open>
  Every call that leaves the two functions is recorded, in order, with its arguments and,
  where the code reads it, its result: \<open>Malloc size result\<close>, \<open>Mmap length
  result\<close>, \<open>Mprotect address length result\<close>, \<open>Munmap address length\<close>.
  The rate-limited log lines (\<open>PLOG_EVERY_SECOND\<close>, \<open>LOG_ONCE\<close>) change no
  state the functions read and are left out.
\<close>

datatype event =
    Malloc addr addr
  | Free addr
  | Mmap addr addr
  | Mprotect addr addr cint
  | Munmap addr addr
  | ValgrindRegister addr addr "32 word"
  | ValgrindDeregister "32 word"

text \<open>
  The process state the two functions touch: the live-stack counter \<open>s_stack_count\<close>
  (an atomic \<open>int64_t\<close>; one thread is modelled), the heap blocks and the mappings
  currently owned by the process, and the call trace. A successful \<open>malloc\<close> or
  \<open>mmap\<close> adds a block, \<open>free\<close> and \<open>munmap\<close> remove the one they
  are given.
\<close>

record world =
  s_stack_count :: "64 word"
  heap :: "addr list"
  mappings :: "(addr \<times> addr) list"
  trace :: "event list"

definition NULL :: addr where
  "NULL = 0"

definition MAP_FAILED :: addr where
  "MAP_FAILED = - 1"

definition std_max :: "cint \<Rightarrow> cint \<Rightarrow> cint" where
  "std_max a b = (if sint a < sint b then b else a)"

text \<open>\<open>(std::max(n, floor) + PAGESIZE_M1) & ~PAGESIZE_M1\<close>\<close>

definition align_size :: "cint \<Rightarrow> cint \<Rightarrow> cint \<Rightarrow> cint" where
  "align_size PAGESIZE n floor_size =
     (std_max n floor_size + (PAGESIZE - 1)) AND NOT (PAGESIZE - 1)"

definition emit :: "event \<Rightarrow> world \<Rightarrow> world" where
  "emit e w = w\<lparr>trace := trace w @ [e]\<rparr>"

definition do_malloc :: "os \<Rightarrow> addr \<Rightarrow> world \<Rightarrow> addr \<times> world" where
  "do_malloc env n w =
     (let mem = malloc_ret env n;
          w1 = emit (Malloc n mem) w
      in (mem, if mem = NULL then w1 else w1\<lparr>heap := mem # heap w1\<rparr>))"

definition do_free :: "addr \<Rightarrow> world \<Rightarrow> world" where
  "do_free p w = (emit (Free p) w)\<lparr>heap := remove1 p (heap w)\<rparr>"

definition do_mmap :: "os \<Rightarrow> addr \<Rightarrow> world \<Rightarrow> addr \<times> world" where
  "do_mmap env len w =
     (let mem = mmap_ret env len;
          w1 = emit (Mmap len mem) w
      in (mem, if mem = MAP_FAILED then w1 else w1\<lparr>mappings := (mem, len) # mappings w1\<rparr>))"

definition do_mprotect :: "os \<Rightarrow> addr \<Rightarrow> addr \<Rightarrow> world \<Rightarrow> cint \<times> world" where
  "do_mprotect env a len w =
     (let r = mprotect_ret env a len in (r, emit (Mprotect a len r) w))"

definition do_munmap :: "addr \<Rightarrow> addr \<Rightarrow> world \<Rightarrow> world" where
  "do_munmap a len w = (emit (Munmap a len) w)\<lparr>mappings := remove1 (a, len) (mappings w)\<rparr>"

text \<open>
  The tail both successful paths share: \<open>VALGRIND_STACK_REGISTER(s->bottom,
  (char*)s->bottom - stacksize)\<close> under Valgrind, identifier 0 otherwise.
\<close>

definition register_stack :: "os \<Rightarrow> addr \<Rightarrow> cint \<Rightarrow> world \<Rightarrow> 32 word \<times> world" where
  "register_stack env btm ssize w =
     (if RunningOnValgrind env
      then (let lo = btm - scast ssize; i = valgrind_register env btm lo
            in (i, emit (ValgrindRegister btm lo i) w))
      else (0, w))"

text \<open>
  \<open>allocate_stack_storage(s, stacksize_in, guardsize_in)\<close>: the returned triple is the
  \<open>int\<close> result, the caller's \<open>StackStorage\<close> after the call and the process state
  after the call.
\<close>

definition allocate_stack_storage ::
  "os \<Rightarrow> world \<Rightarrow> StackStorage \<Rightarrow> cint \<Rightarrow> cint \<Rightarrow> cint \<times> StackStorage \<times> world" where
  "allocate_stack_storage env w s stacksize_in guardsize_in =
     (let PAGESIZE = getpagesize env;
          PAGESIZE_M1 = PAGESIZE - 1;
          MIN_STACKSIZE = PAGESIZE * 2;
          MIN_GUARDSIZE = PAGESIZE;
          ssize = align_size PAGESIZE stacksize_in MIN_STACKSIZE
      in
      if sint guardsize_in \<le> 0 then
        (let (mem, w1) = do_malloc env (scast ssize) w in
         if mem = NULL then (- 1, s, w1)
         else
           (let w2 = w1\<lparr>s_stack_count := s_stack_count w1 + 1\<rparr>;
                btm = mem + scast ssize;
                (vid, w3) = register_stack env btm ssize w2
            in (0, \<lparr>bottom = btm, stacksize = ssize, guardsize = 0,
                    valgrind_stack_id = vid\<rparr>, w3)))
      else
        (let gsize = align_size PAGESIZE guardsize_in MIN_GUARDSIZE;
             memsize = ssize + gsize;
             (mem, w1) = do_mmap env (scast memsize) w
         in
         if mem = MAP_FAILED then (- 1, s, w1)
         else
           (let aligned_mem = (mem + scast PAGESIZE_M1) AND scast (NOT PAGESIZE_M1);
                offset = (ucast (aligned_mem - mem) :: cint)
            in
            if sint gsize \<le> sint offset then (- 1, s, do_munmap mem (scast memsize) w1)
            else
              (let (r, w2) = do_mprotect env aligned_mem (scast (gsize - offset)) w1 in
               if r \<noteq> 0 then (- 1, s, do_munmap mem (scast memsize) w2)
               else
                 (let w3 = w2\<lparr>s_stack_count := s_stack_count w2 + 1\<rparr>;
                      btm = mem + scast memsize;
                      (vid, w4) = register_stack env btm ssize w3
                  in (0, \<lparr>bottom = btm, stacksize = ssize, guardsize = gsize,
                          valgrind_stack_id = vid\<rparr>, w4))))))"

definition deallocate_stack_storage :: "os \<Rightarrow> world \<Rightarrow> StackStorage \<Rightarrow> world" where
  "deallocate_stack_storage env w s =
     (let w1 = (if RunningOnValgrind env
                then emit (ValgrindDeregister (valgrind_stack_id s)) w else w);
          memsize = stacksize s + guardsize s
      in
      if bottom s \<le> scast memsize then w1
      else
        (let w2 = w1\<lparr>s_stack_count := s_stack_count w1 - 1\<rparr> in
         if sint (guardsize s) \<le> 0 then do_free (bottom s - scast memsize) w2
         else do_munmap (bottom s - scast memsize) (scast memsize) w2))"

subsection \<open>The local constants of \<open>allocate_stack_storage\<close>, as functions of its inputs\<close>

definition rounded_stacksize :: "os \<Rightarrow> cint \<Rightarrow> cint" where
  "rounded_stacksize env n = align_size (getpagesize env) n (getpagesize env * 2)"

definition rounded_guardsize :: "os \<Rightarrow> cint \<Rightarrow> cint" where
  "rounded_guardsize env n = align_size (getpagesize env) n (getpagesize env)"

definition total_memsize :: "os \<Rightarrow> cint \<Rightarrow> cint \<Rightarrow> cint" where
  "total_memsize env n g = rounded_stacksize env n + rounded_guardsize env g"

definition mapped_mem :: "os \<Rightarrow> cint \<Rightarrow> cint \<Rightarrow> addr" where
  "mapped_mem env n g = mmap_ret env (scast (total_memsize env n g))"

definition aligned_mem_of :: "os \<Rightarrow> addr \<Rightarrow> addr" where
  "aligned_mem_of env mem =
     (mem + scast (getpagesize env - 1)) AND scast (NOT (getpagesize env - 1))"

definition offset_of :: "os \<Rightarrow> addr \<Rightarrow> cint" where
  "offset_of env mem = ucast (aligned_mem_of env mem - mem)"

subsection \<open>Reading a trace\<close>

text \<open>The calls one invocation added to the trace.\<close>

definition new_events :: "world \<Rightarrow> world \<Rightarrow> event list" where
  "new_events w w' = drop (length (trace w)) (trace w')"

fun is_malloc :: "event \<Rightarrow> bool" where
  "is_malloc (Malloc n p) = True"
| "is_malloc e = False"

fun is_mmap_or_mprotect :: "event \<Rightarrow> bool" where
  "is_mmap_or_mprotect (Mmap n p) = True"
| "is_mmap_or_mprotect (Mprotect a n r) = True"
| "is_mmap_or_mprotect e = False"

fun is_release :: "event \<Rightarrow> bool" where
  "is_release (Free p) = True"
| "is_release (Munmap a n) = True"
| "is_release e = False"

subsection \<open>What is assumed of the operating system\<close>


definition malloc_ok :: "os \<Rightarrow> bool" where
  "malloc_ok env = (\<forall>n. malloc_ret env n \<noteq> NULL \<longrightarrow>
       n < 2 ^ 63 \<and> uint (malloc_ret env n) + uint n < 2 ^ 64)"

definition mmap_ok :: "os \<Rightarrow> bool" where
  "mmap_ok env = (\<forall>n. mmap_ret env n \<noteq> MAP_FAILED \<longrightarrow>
       mmap_ret env n \<noteq> NULL \<and> 0 < n \<and> n < 2 ^ 63
       \<and> uint (mmap_ret env n) + uint n < 2 ^ 64)"

subsection \<open>Concrete systems and states\<close>

text \<open>
  A system with 4096-byte pages that serves requests of up to one megabyte, and one whose
  \<open>mmap\<close> always answers and whose \<open>mprotect\<close> always fails.
\<close>

definition demo_os :: os where
  "demo_os = \<lparr>getpagesize = 4096,
     malloc_ret = (\<lambda>n. if n \<le> 0x100000 then 0x10000 else 0),
     mmap_ret = (\<lambda>n. if 0 < n \<and> n \<le> 0x100000 then 0x7f0000000000 else - 1),
     mprotect_ret = (\<lambda>a n. 0),
     RunningOnValgrind = False,
     valgrind_register = (\<lambda>a b. 0)\<rparr>"

definition failing_os :: os where
  "failing_os = demo_os\<lparr>mmap_ret := (\<lambda>n. 0x7f0000000000), mprotect_ret := (\<lambda>a n. - 1)\<rparr>"

definition empty_world :: world where
  "empty_world = \<lparr>s_stack_count = 0, heap = [], mappings = [], trace = []\<rparr>"

definition zero_storage :: StackStorage where
  "zero_storage = \<lparr>bottom = 0, stacksize = 0, guardsize = 0, valgrind_stack_id = 0\<rparr>"

section \<open>Context switch (src/bthread/context.cpp)\<close>

text \<open>
  The file is assembly, one pair of routines per platform, selected by the preprocessor.
  The \<open>linux_x86_64\<close> pair and the \<open>linux_arm64\<close> switch are embedded
  instruction by instruction over a machine state: the registers the routines touch, the
  program counter, and a byte-addressed little-endian memory. The condition flags are
  not part of the state: the only instruction that sets them, \<open>cmp\<close>, is followed
  at once by the \<open>je\<close> that reads them, and the pair is one step of the model.
\<close>

subsection \<open>Memory\<close>

type_synonym memory = "addr \<Rightarrow> 8 word"

text \<open>\<open>in_range a n x\<close>: the byte \<open>x\<close> is one of the \<open>n\<close> bytes from \<open>a\<close> on.\<close>

definition in_range :: "addr \<Rightarrow> nat \<Rightarrow> addr \<Rightarrow> bool" where
  "in_range a n x = (unat (x - a) < n)"

text \<open>
  \<open>apart a n b k\<close>: the \<open>k\<close> bytes from \<open>b\<close> on lie outside the \<open>n\<close> bytes
  from \<open>a\<close> on, modulo \<open>2^64\<close>.
\<close>

definition apart :: "addr \<Rightarrow> nat \<Rightarrow> addr \<Rightarrow> nat \<Rightarrow> bool" where
  "apart a n b k = (n \<le> unat (b - a) \<and> unat (b - a) + k \<le> 2 ^ 64)"

definition byte_of :: "'a::len word \<Rightarrow> nat \<Rightarrow> 8 word" where
  "byte_of v i = ucast (drop_bit (8 * i) v)"

definition store_le :: "nat \<Rightarrow> addr \<Rightarrow> 'a::len word \<Rightarrow> memory \<Rightarrow> memory" where
  "store_le n a v m = (\<lambda>x. if in_range a n x then byte_of v (unat (x - a)) else m x)"

definition store64 :: "addr \<Rightarrow> 64 word \<Rightarrow> memory \<Rightarrow> memory" where
  "store64 = store_le 8"

definition store32 :: "addr \<Rightarrow> 32 word \<Rightarrow> memory \<Rightarrow> memory" where
  "store32 = store_le 4"

definition store16 :: "addr \<Rightarrow> 16 word \<Rightarrow> memory \<Rightarrow> memory" where
  "store16 = store_le 2"

definition load16 :: "memory \<Rightarrow> addr \<Rightarrow> 16 word" where
  "load16 m a = ucast (m a) OR push_bit 8 (ucast (m (a + 1)))"

definition load32 :: "memory \<Rightarrow> addr \<Rightarrow> 32 word" where
  "load32 m a = ucast (m a) OR push_bit 8 (ucast (m (a + 1)))
       OR push_bit 16 (ucast (m (a + 2))) OR push_bit 24 (ucast (m (a + 3)))"

definition load64 :: "memory \<Rightarrow> addr \<Rightarrow> 64 word" where
  "load64 m a = ucast (m a) OR push_bit 8 (ucast (m (a + 1)))
       OR push_bit 16 (ucast (m (a + 2))) OR push_bit 24 (ucast (m (a + 3)))
       OR push_bit 32 (ucast (m (a + 4))) OR push_bit 40 (ucast (m (a + 5)))
       OR push_bit 48 (ucast (m (a + 6))) OR push_bit 56 (ucast (m (a + 7)))"

text \<open>A routine is its instructions, run in the order of the listing.\<close>

fun exec :: "('s \<Rightarrow> 's) list \<Rightarrow> 's \<Rightarrow> 's" where
  "exec [] s = s"
| "exec (i # is) s = exec is (i s)"

subsection \<open>The x86-64 machine\<close>

datatype reg = RAX | RBX | RCX | RDX | RSI | RDI | RBP | RSP | R8 | R12 | R13 | R14 | R15

record x64 =
  regs :: "reg \<Rightarrow> 64 word"
  rip :: "64 word"
  mxcsr :: "32 word"
  fpu_cw :: "16 word"
  mem :: memory

text \<open>Operands are in the order of the AT&T listing: source first.\<close>

definition pushq :: "reg \<Rightarrow> x64 \<Rightarrow> x64" where
  "pushq r s = (let sp = regs s RSP - 8
                in s\<lparr>regs := (regs s)(RSP := sp), mem := store64 sp (regs s r) (mem s)\<rparr>)"

definition popq :: "reg \<Rightarrow> x64 \<Rightarrow> x64" where
  "popq r s = (let sp = regs s RSP; v = load64 (mem s) sp
               in s\<lparr>regs := (regs s)(RSP := sp + 8, r := v)\<rparr>)"

text \<open>\<open>leaq disp(%base), %dst\<close>\<close>

definition leaq :: "64 word \<Rightarrow> reg \<Rightarrow> reg \<Rightarrow> x64 \<Rightarrow> x64" where
  "leaq disp base dst s = s\<lparr>regs := (regs s)(dst := regs s base + disp)\<rparr>"

text \<open>\<open>leaq label(%rip), %dst\<close>: the address the linker gave the label.\<close>

definition leaq_rip :: "64 word \<Rightarrow> reg \<Rightarrow> x64 \<Rightarrow> x64" where
  "leaq_rip label dst s = s\<lparr>regs := (regs s)(dst := label)\<rparr>"

definition movq :: "reg \<Rightarrow> reg \<Rightarrow> x64 \<Rightarrow> x64" where
  "movq src dst s = s\<lparr>regs := (regs s)(dst := regs s src)\<rparr>"

text \<open>\<open>movq %src, disp(%base)\<close>\<close>

definition movq_store :: "reg \<Rightarrow> 64 word \<Rightarrow> reg \<Rightarrow> x64 \<Rightarrow> x64" where
  "movq_store src disp base s = s\<lparr>mem := store64 (regs s base + disp) (regs s src) (mem s)\<rparr>"

definition andq_imm :: "64 word \<Rightarrow> reg \<Rightarrow> x64 \<Rightarrow> x64" where
  "andq_imm imm dst s = s\<lparr>regs := (regs s)(dst := regs s dst AND imm)\<rparr>"

definition xorq :: "reg \<Rightarrow> reg \<Rightarrow> x64 \<Rightarrow> x64" where
  "xorq src dst s = s\<lparr>regs := (regs s)(dst := regs s dst XOR regs s src)\<rparr>"

definition stmxcsr :: "64 word \<Rightarrow> reg \<Rightarrow> x64 \<Rightarrow> x64" where
  "stmxcsr disp base s = s\<lparr>mem := store32 (regs s base + disp) (mxcsr s) (mem s)\<rparr>"

definition fnstcw :: "64 word \<Rightarrow> reg \<Rightarrow> x64 \<Rightarrow> x64" where
  "fnstcw disp base s = s\<lparr>mem := store16 (regs s base + disp) (fpu_cw s) (mem s)\<rparr>"

definition ldmxcsr :: "64 word \<Rightarrow> reg \<Rightarrow> x64 \<Rightarrow> x64" where
  "ldmxcsr disp base s = s\<lparr>mxcsr := load32 (mem s) (regs s base + disp)\<rparr>"

definition fldcw :: "64 word \<Rightarrow> reg \<Rightarrow> x64 \<Rightarrow> x64" where
  "fldcw disp base s = s\<lparr>fpu_cw := load16 (mem s) (regs s base + disp)\<rparr>"

text \<open>\<open>jmp *%r\<close>\<close>

definition jmp :: "reg \<Rightarrow> x64 \<Rightarrow> x64" where
  "jmp r s = s\<lparr>rip := regs s r\<rparr>"

definition ret :: "x64 \<Rightarrow> x64" where
  "ret s = (let sp = regs s RSP
            in s\<lparr>regs := (regs s)(RSP := sp + 8), rip := load64 (mem s) sp\<rparr>)"

text \<open>\<open>call target\<close>, from the instruction that precedes \<open>return_address\<close>.\<close>

definition callq :: "64 word \<Rightarrow> 64 word \<Rightarrow> x64 \<Rightarrow> x64" where
  "callq target return_address s =
     (let sp = regs s RSP - 8
      in s\<lparr>regs := (regs s)(RSP := sp), mem := store64 sp return_address (mem s),
            rip := target\<rparr>)"

text \<open>\<open>cmp $0, %r; je L; body; L:\<close>\<close>

definition unless_zero :: "reg \<Rightarrow> (x64 \<Rightarrow> x64) list \<Rightarrow> x64 \<Rightarrow> x64" where
  "unless_zero r body s = (if regs s r = 0 then s else exec body s)"

subsection \<open>\<open>linux_x86_64\<close>: the two routines and the trampoline\<close>

text \<open>
  \<open>bthread_jump_fcontext(ofc, nfc, vp, preserve_fpu)\<close>: the arguments arrive in
  \<open>rdi\<close>, \<open>rsi\<close>, \<open>rdx\<close> and \<open>rcx\<close>; the routine tests the
  whole of \<open>rcx\<close> against 0.
\<close>

definition bthread_jump_fcontext :: "x64 \<Rightarrow> x64" where
  "bthread_jump_fcontext = exec
     [pushq RBP, pushq RBX, pushq R15, pushq R14, pushq R13, pushq R12,
      leaq (- 0x8) RSP RSP,
      unless_zero RCX [stmxcsr 0 RSP, fnstcw 0x4 RSP],
      movq_store RSP 0 RDI,
      movq RSI RSP,
      unless_zero RCX [ldmxcsr 0 RSP, fldcw 0x4 RSP],
      leaq 0x8 RSP RSP,
      popq R12, popq R13, popq R14, popq R15, popq RBX, popq RBP,
      popq R8,
      movq RDX RAX,
      movq RDX RDI,
      jmp R8]"

text \<open>
  \<open>bthread_make_fcontext(sp, size, fn)\<close>: the arguments arrive in \<open>rdi\<close>, \<open>rsi\<close>
  and \<open>rdx\<close>; \<open>finish_label\<close> is the address of the label \<open>finish\<close>.
\<close>

definition bthread_make_fcontext :: "64 word \<Rightarrow> x64 \<Rightarrow> x64" where
  "bthread_make_fcontext finish_label = exec
     [movq RDI RAX,
      andq_imm (- 16) RAX,
      leaq (- 0x48) RAX RAX,
      movq_store RDX 0x38 RAX,
      stmxcsr 0 RAX,
      fnstcw 0x4 RAX,
      leaq_rip finish_label RCX,
      movq_store RCX 0x40 RAX,
      ret]"

text \<open>
  Where control can be: still running, or the process has exited with a status.
  \<open>_exit(status)\<close> ends the process and does not return; its argument is the low
  half of \<open>rdi\<close>.
\<close>

datatype outcome = Running x64 | Exited "32 word"

definition c_exit :: "x64 \<Rightarrow> outcome" where
  "c_exit s = Exited (ucast (regs s RDI))"

text \<open>
  \<open>finish: xorq %rdi, %rdi; call _exit@PLT; hlt\<close>. The call does not come back, so
  the \<open>hlt\<close> behind it is never reached.
\<close>

definition finish :: "x64 \<Rightarrow> outcome" where
  "finish s = c_exit (xorq RDI RDI s)"

text \<open>What runs next in a state whose program counter may be the trampoline.\<close>

definition continue_at :: "64 word \<Rightarrow> x64 \<Rightarrow> outcome" where
  "continue_at finish_label s = (if rip s = finish_label then finish s else Running s)"

text \<open>
  The 8-byte cell at \<open>b\<close> is outside what a switch from \<open>s\<close> writes: the 56 bytes
  below its stack pointer and the cell \<open>*ofc\<close>.
\<close>

definition switch_leaves :: "x64 \<Rightarrow> addr \<Rightarrow> bool" where
  "switch_leaves s b = (apart (regs s RSP - 0x38) 0x38 b 8 \<and> apart (regs s RDI) 8 b 8)"

subsection \<open>The ARM64 machine and the \<open>linux_arm64\<close> switch\<close>

datatype areg = X0 | X1 | X2 | X3 | X4
  | X19 | X20 | X21 | X22 | X23 | X24 | X25 | X26 | X27 | X28 | X29 | X30 | SP
  | D8 | D9 | D10 | D11 | D12 | D13 | D14 | D15

record arm64 =
  aregs :: "areg \<Rightarrow> 64 word"
  pc :: "64 word"
  amem :: memory

text \<open>Operands are in the order of the listing: destination first.\<close>

definition a_sub :: "areg \<Rightarrow> areg \<Rightarrow> 64 word \<Rightarrow> arm64 \<Rightarrow> arm64" where
  "a_sub dst src imm s = s\<lparr>aregs := (aregs s)(dst := aregs s src - imm)\<rparr>"

definition a_add :: "areg \<Rightarrow> areg \<Rightarrow> 64 word \<Rightarrow> arm64 \<Rightarrow> arm64" where
  "a_add dst src imm s = s\<lparr>aregs := (aregs s)(dst := aregs s src + imm)\<rparr>"

definition a_mov :: "areg \<Rightarrow> areg \<Rightarrow> arm64 \<Rightarrow> arm64" where
  "a_mov dst src s = s\<lparr>aregs := (aregs s)(dst := aregs s src)\<rparr>"

text \<open>\<open>stp r1, r2, [base, #off]\<close>\<close>

definition a_stp :: "areg \<Rightarrow> areg \<Rightarrow> areg \<Rightarrow> 64 word \<Rightarrow> arm64 \<Rightarrow> arm64" where
  "a_stp r1 r2 base off s =
     s\<lparr>amem := store64 (aregs s base + off + 8) (aregs s r2)
                 (store64 (aregs s base + off) (aregs s r1) (amem s))\<rparr>"

definition a_str :: "areg \<Rightarrow> areg \<Rightarrow> 64 word \<Rightarrow> arm64 \<Rightarrow> arm64" where
  "a_str r base off s = s\<lparr>amem := store64 (aregs s base + off) (aregs s r) (amem s)\<rparr>"

definition a_ldp :: "areg \<Rightarrow> areg \<Rightarrow> areg \<Rightarrow> 64 word \<Rightarrow> arm64 \<Rightarrow> arm64" where
  "a_ldp r1 r2 base off s =
     s\<lparr>aregs := (aregs s)(r1 := load64 (amem s) (aregs s base + off),
                            r2 := load64 (amem s) (aregs s base + off + 8))\<rparr>"

definition a_ldr :: "areg \<Rightarrow> areg \<Rightarrow> 64 word \<Rightarrow> arm64 \<Rightarrow> arm64" where
  "a_ldr r base off s = s\<lparr>aregs := (aregs s)(r := load64 (amem s) (aregs s base + off))\<rparr>"

text \<open>\<open>ret r\<close>\<close>

definition a_ret :: "areg \<Rightarrow> arm64 \<Rightarrow> arm64" where
  "a_ret r s = s\<lparr>pc := aregs s r\<rparr>"


subsection \<open>Concrete machine states\<close>

definition x64_boot :: x64 where
  "x64_boot = \<lparr>regs = (\<lambda>r. 0)(RSP := 0x7ffd00001000), rip = 0x401000, mxcsr = 0x1f80,
                fpu_cw = 0x37f, mem = (\<lambda>x. 0)\<rparr>"

text \<open>The caller loads the four argument registers, in the order of the C prototype.\<close>

definition with_args :: "64 word \<Rightarrow> 64 word \<Rightarrow> 64 word \<Rightarrow> 64 word \<Rightarrow> x64 \<Rightarrow> x64" where
  "with_args a b c d s = s\<lparr>regs := (regs s)(RDI := a, RSI := b, RDX := c, RCX := d)\<rparr>"



text \<open>
  A caller that calls \<open>bthread_make_fcontext\<close> on the stack the allocator
  returned above (top \<open>0x7f0000004000\<close>, 12288 bytes) with the entry function at
  \<open>0x402000\<close> and the trampoline at \<open>0x400f00\<close>, then calls the switch with
  the value 42.
\<close>

definition x64_making :: x64 where
  "x64_making = callq 0x400e00 0x401005 (with_args 0x7f0000004000 12288 0x402000 0 x64_boot)"

definition x64_made :: x64 where
  "x64_made = bthread_make_fcontext 0x400f00 x64_making"

definition x64_switching :: x64 where
  "x64_switching = callq 0x400e80 0x401010
     (with_args 0x7ffd00000f00 (regs x64_made RAX) 42 0 x64_made)"

definition x64_in_entry :: x64 where
  "x64_in_entry = bthread_jump_fcontext x64_switching"

text \<open>
  The entry function calls the switch to go back, with return address \<open>0x402020\<close>;
  later a switch names the context that call saved and passes 123.
\<close>

definition x64_entry_call :: x64 where
  "x64_entry_call = with_args 0x7f0000003f00 0x7ffd00000fc0 99 0 x64_in_entry"

definition x64_resuming :: x64 where
  "x64_resuming =
     (bthread_jump_fcontext (callq 0x400e80 0x402020 x64_entry_call))
       \<lparr>regs := (regs x64_boot)(RDI := 0x7ffd00000f00, RSI := 0x7f0000003fb8, RDX := 123)\<rparr>"




section \<open>Properties of the stack storage\<close>

subsection \<open>Word arithmetic\<close>

lemma and_not_mask_push: "(x :: 'a::len word) AND NOT (mask k) = push_bit k (drop_bit k x)"
  by (rule bit_eqI) (auto simp add: bit_simps)

lemma and_not_mask_minus: "(x :: 'a::len word) AND NOT (mask k) = x - take_bit k x"
proof -
  have "push_bit k (drop_bit k x) + take_bit k x = x" by (rule bits_ident)
  then show ?thesis unfolding and_not_mask_push by (simp add: algebra_simps)
qed

lemma uint_take_bit_mod: "uint (take_bit k x) = uint x mod 2^k"
  unfolding unsigned_take_bit_eq by (rule take_bit_eq_mod)

lemma uint_and_not_mask: "uint ((x :: 'a::len word) AND NOT (mask k)) = (uint x div 2^k) * 2^k"
proof -
  have "uint (take_bit k x) \<le> uint x"
    unfolding uint_take_bit_mod by (rule zmod_le_nonneg_dividend) simp
  then have le: "take_bit k x \<le> x" by (simp add: word_le_def)
  have "uint (x - take_bit k x) = uint x - uint (take_bit k x)"
    using le by (simp add: uint_minus_simple_alt)
  also have "\<dots> = (uint x div 2^k) * 2^k"
    unfolding uint_take_bit_mod by (simp add: minus_mod_eq_div_mult)
  finally show ?thesis by (simp add: and_not_mask_minus)
qed














subsection \<open>The shape of a call\<close>

lemmas alloc_defs = allocate_stack_storage_def rounded_stacksize_def rounded_guardsize_def
  total_memsize_def mapped_mem_def aligned_mem_of_def offset_of_def Let_def
  do_malloc_def do_mmap_def do_mprotect_def do_munmap_def register_stack_def emit_def

lemma allocate_success_unguarded:
  assumes "sint G \<le> 0" and "allocate_stack_storage env w s S G = (0, s', w')"
  shows "malloc_ret env (scast (rounded_stacksize env S)) \<noteq> NULL"
    and "stacksize s' = rounded_stacksize env S"
    and "guardsize s' = 0"
    and "bottom s' = malloc_ret env (scast (rounded_stacksize env S)) + scast (rounded_stacksize env S)"
    and "s_stack_count w' = s_stack_count w + 1"
  using assms by (auto simp add: alloc_defs split: if_splits)

lemma allocate_success_guarded:
  assumes "\<not> sint G \<le> 0" and "allocate_stack_storage env w s S G = (0, s', w')"
  shows "mapped_mem env S G \<noteq> MAP_FAILED"
    and "stacksize s' = rounded_stacksize env S"
    and "guardsize s' = rounded_guardsize env G"
    and "bottom s' = mapped_mem env S G + scast (total_memsize env S G)"
    and "s_stack_count w' = s_stack_count w + 1"
  using assms by (auto simp add: alloc_defs split: if_splits)





lemma demo_malloc_ok: "malloc_ok demo_os"
  unfolding malloc_ok_def demo_os_def NULL_def
  by (auto simp add: word_le_def word_less_def)

lemma demo_mmap_ok: "mmap_ok demo_os"
  unfolding mmap_ok_def demo_os_def NULL_def MAP_FAILED_def
  by (auto simp add: word_le_def word_less_def)




lemma allocate_unguarded_eq:
  assumes "sint G \<le> 0"
  shows "allocate_stack_storage env w s S G =
     (let n = rounded_stacksize env S; mem = malloc_ret env (scast n); btm = mem + scast n in
      if mem = NULL then (- 1, s, w\<lparr>trace := trace w @ [Malloc (scast n) mem]\<rparr>)
      else (0, \<lparr>bottom = btm, stacksize = n, guardsize = 0,
                valgrind_stack_id =
                  (if RunningOnValgrind env then valgrind_register env btm (btm - scast n) else 0)\<rparr>,
            w\<lparr>s_stack_count := s_stack_count w + 1, heap := mem # heap w,
              trace := trace w @ Malloc (scast n) mem #
                 (if RunningOnValgrind env
                  then [ValgrindRegister btm (btm - scast n) (valgrind_register env btm (btm - scast n))]
                  else [])\<rparr>))"
  using assms by (simp add: alloc_defs)


lemmas dealloc_defs = deallocate_stack_storage_def Let_def
  do_free_def do_munmap_def emit_def new_events_def


lemma no_wrap_above:
  fixes m n :: addr
  assumes "m \<noteq> 0" and "uint m + uint n < 2 ^ 64"
  shows "\<not> m + n \<le> n"
proof -
  have "uint m + uint n < 2 ^ LENGTH(64)" using assms(2) by simp
  then have "uint (m + n) = uint m + uint n" by (simp only: uint_add_lem)
  moreover have "0 < uint m" using assms(1) by (simp add: word_neq_0_conv word_less_def)
  ultimately show ?thesis by (simp add: word_le_def)
qed

lemma deallocate_count:
  "\<not> bottom s \<le> scast (stacksize s + guardsize s) \<Longrightarrow>
   s_stack_count (deallocate_stack_storage env w s) = s_stack_count w - 1"
  by (simp add: dealloc_defs)

lemma allocate_failure_count:
  "allocate_stack_storage env w s S G = (r, s', w') \<Longrightarrow> r \<noteq> 0 \<Longrightarrow>
   s_stack_count w' = s_stack_count w"
  by (auto simp add: alloc_defs split: if_splits)


section \<open>Claims about the stack storage\<close>



text \<open>
  C7. When the requested guard size is not positive, the call is one \<open>malloc\<close> of
  exactly the rounded stack size and no \<open>mmap\<close> or \<open>mprotect\<close>; on success
  \<open>guardsize\<close> is 0, \<open>stacksize\<close> is the rounded size and \<open>bottom\<close> is the
  block's base plus \<open>stacksize\<close>.
\<close>

theorem unguarded_path_single_malloc:
  assumes "sint G \<le> 0"
  shows "(case allocate_stack_storage env w s S G of (r, s', w') \<Rightarrow>
           filter is_malloc (new_events w w') =
             [Malloc (scast (rounded_stacksize env S))
                (malloc_ret env (scast (rounded_stacksize env S)))]
         \<and> filter is_mmap_or_mprotect (new_events w w') = []
         \<and> trace w' = trace w @ new_events w w'
         \<and> mappings w' = mappings w
         \<and> (if r = 0
             then stacksize s' = rounded_stacksize env S
                \<and> guardsize s' = 0
                \<and> bottom s' = malloc_ret env (scast (rounded_stacksize env S))
                               + scast (rounded_stacksize env S)
             else r = - 1))"
  unfolding allocate_unguarded_eq [OF assms]
  by (simp add: Let_def new_events_def)

theorem unguarded_path_single_malloc_witness:
  "sint (0 :: cint) \<le> 0 \<and>
   allocate_stack_storage demo_os empty_world zero_storage 10000 0 =
     (0, \<lparr>bottom = 77824, stacksize = 12288, guardsize = 0, valgrind_stack_id = 0\<rparr>,
      \<lparr>s_stack_count = 1, heap = [65536], mappings = [], trace = [Malloc 12288 65536]\<rparr>) \<and>
   rounded_stacksize demo_os 10000 = 12288"
  using unguarded_path_single_malloc
          [where G = 0 and env = demo_os and w = empty_world and s = zero_storage and S = 10000]
  by (simp add: alloc_defs demo_os_def empty_world_def zero_storage_def align_size_def
      std_max_def MAP_FAILED_def NULL_def)

text \<open>
  C10. The call fails exactly when \<open>malloc\<close> returns null (unguarded path), or
  \<open>mmap\<close> fails, the guard size does not exceed the alignment offset, or
  \<open>mprotect\<close> does not return 0 (guarded path). In each of these cases the result is
  \<open>-1\<close> and the caller's \<open>StackStorage\<close> is as it was passed in; otherwise the
  result is 0.
\<close>

theorem allocate_failure_writes_no_field:
  "(case allocate_stack_storage env w s S G of (r, s', w') \<Rightarrow>
     (if (if sint G \<le> 0
          then malloc_ret env (scast (rounded_stacksize env S)) = NULL
          else mapped_mem env S G = MAP_FAILED
             \<or> sint (rounded_guardsize env G) \<le> sint (offset_of env (mapped_mem env S G))
             \<or> mprotect_ret env (aligned_mem_of env (mapped_mem env S G))
                  (scast (rounded_guardsize env G - offset_of env (mapped_mem env S G))) \<noteq> 0)
      then r = - 1 \<and> s' = s
      else r = 0))"
  by (simp add: alloc_defs)

theorem allocate_failure_writes_no_field_witness:
  "allocate_stack_storage demo_os empty_world zero_storage 0x200000 0
     = (- 1, zero_storage, empty_world\<lparr>trace := [Malloc 0x200000 0]\<rparr>)
   \<and> allocate_stack_storage demo_os empty_world zero_storage 0x200000 4096
     = (- 1, zero_storage, empty_world\<lparr>trace := [Mmap 0x201000 (- 1)]\<rparr>)
   \<and> allocate_stack_storage failing_os empty_world zero_storage 10000 0x7fffffff
     = (- 1, zero_storage,
        empty_world\<lparr>trace := [Mmap 0xffffffff80003000 0x7f0000000000,
                                Munmap 0x7f0000000000 0xffffffff80003000]\<rparr>)
   \<and> allocate_stack_storage failing_os empty_world zero_storage 10000 4096
     = (- 1, zero_storage,
        empty_world\<lparr>trace := [Mmap 16384 0x7f0000000000, Mprotect 0x7f0000000000 4096 (- 1),
                                Munmap 0x7f0000000000 16384]\<rparr>)"
  using allocate_failure_writes_no_field
          [where env = demo_os and w = empty_world and s = zero_storage and S = "0x200000"
             and G = 0]
        allocate_failure_writes_no_field
          [where env = demo_os and w = empty_world and s = zero_storage and S = "0x200000"
             and G = 4096]
        allocate_failure_writes_no_field
          [where env = failing_os and w = empty_world and s = zero_storage and S = 10000
             and G = "0x7fffffff"]
        allocate_failure_writes_no_field
          [where env = failing_os and w = empty_world and s = zero_storage and S = 10000
             and G = 4096]
  by (simp add: alloc_defs failing_os_def demo_os_def empty_world_def zero_storage_def
      align_size_def std_max_def MAP_FAILED_def NULL_def)

text \<open>
  C3. On the guarded path, once the mapping exists, a guard size that does not exceed the
  alignment offset or a failing \<open>mprotect\<close> makes the call return \<open>-1\<close>; its
  first call was the \<open>mmap\<close> and its last call is the \<open>munmap\<close> of the whole
  mapping. Whenever the call fails, the caller's \<open>StackStorage\<close>, the mappings, the
  heap and the counter are as before; whenever it succeeds, every field is set, the
  counter is incremented and, on the guarded path, the mapping is owned and
  \<open>mprotect\<close> has returned 0 on its guard.
\<close>

theorem guarded_failure_unmaps:
  "(case allocate_stack_storage env w s S G of (r, s', w') \<Rightarrow>
      (0 < sint G \<and> mapped_mem env S G \<noteq> MAP_FAILED
        \<and> (sint (rounded_guardsize env G) \<le> sint (offset_of env (mapped_mem env S G))
           \<or> mprotect_ret env (aligned_mem_of env (mapped_mem env S G))
                (scast (rounded_guardsize env G - offset_of env (mapped_mem env S G))) \<noteq> 0)
       \<longrightarrow> r = - 1
         \<and> hd (new_events w w') = Mmap (scast (total_memsize env S G)) (mapped_mem env S G)
         \<and> last (new_events w w') = Munmap (mapped_mem env S G) (scast (total_memsize env S G)))
    \<and> (if r = 0
        then stacksize s' = rounded_stacksize env S
           \<and> guardsize s' = (if sint G \<le> 0 then 0 else rounded_guardsize env G)
           \<and> bottom s' = (if sint G \<le> 0
                then malloc_ret env (scast (rounded_stacksize env S))
                     + scast (rounded_stacksize env S)
                else mapped_mem env S G + scast (total_memsize env S G))
           \<and> valgrind_stack_id s' = (if RunningOnValgrind env
                then valgrind_register env (bottom s')
                       (bottom s' - scast (rounded_stacksize env S))
                else 0)
           \<and> (0 < sint G \<longrightarrow>
                 Mprotect (aligned_mem_of env (mapped_mem env S G))
                   (scast (rounded_guardsize env G - offset_of env (mapped_mem env S G))) 0
                 \<in> set (new_events w w')
               \<and> mappings w' = (mapped_mem env S G, scast (total_memsize env S G)) # mappings w)
           \<and> s_stack_count w' = s_stack_count w + 1
        else r = - 1 \<and> s' = s \<and> mappings w' = mappings w \<and> heap w' = heap w
           \<and> s_stack_count w' = s_stack_count w))"
  by (simp add: alloc_defs new_events_def)

theorem guarded_failure_unmaps_witness:
  "0 < sint (4096 :: cint) \<and> mapped_mem failing_os 10000 4096 = 0x7f0000000000
   \<and> mprotect_ret failing_os (aligned_mem_of failing_os 0x7f0000000000)
        (scast (rounded_guardsize failing_os 4096 - offset_of failing_os 0x7f0000000000)) = - 1
   \<and> allocate_stack_storage failing_os empty_world zero_storage 10000 4096
     = (- 1, zero_storage,
        empty_world\<lparr>trace := [Mmap 16384 0x7f0000000000, Mprotect 0x7f0000000000 4096 (- 1),
                                Munmap 0x7f0000000000 16384]\<rparr>)
   \<and> 0 < sint (0x7fffffff :: cint)
   \<and> sint (rounded_guardsize failing_os 0x7fffffff) \<le> sint (offset_of failing_os 0x7f0000000000)
   \<and> allocate_stack_storage failing_os empty_world zero_storage 10000 0x7fffffff
     = (- 1, zero_storage,
        empty_world\<lparr>trace := [Mmap 0xffffffff80003000 0x7f0000000000,
                                Munmap 0x7f0000000000 0xffffffff80003000]\<rparr>)
   \<and> allocate_stack_storage demo_os empty_world zero_storage 10000 4096 =
      (0, \<lparr>bottom = 0x7f0000004000, stacksize = 12288, guardsize = 4096, valgrind_stack_id = 0\<rparr>,
       \<lparr>s_stack_count = 1, heap = [], mappings = [(0x7f0000000000, 16384)],
        trace = [Mmap 16384 0x7f0000000000, Mprotect 0x7f0000000000 4096 0]\<rparr>)"
  using guarded_failure_unmaps
          [where G = 4096 and env = failing_os and S = 10000 and w = empty_world
             and s = zero_storage]
        guarded_failure_unmaps
          [where G = "0x7fffffff" and env = failing_os and S = 10000 and w = empty_world
             and s = zero_storage]
        guarded_failure_unmaps
          [where G = 4096 and env = demo_os and S = 10000 and w = empty_world
             and s = zero_storage]
  by (simp add: alloc_defs failing_os_def demo_os_def empty_world_def zero_storage_def
      align_size_def std_max_def MAP_FAILED_def NULL_def)

text \<open>
  C8. When \<open>bottom\<close> is not larger than \<open>stacksize + guardsize\<close>,
  \<open>deallocate_stack_storage\<close> frees nothing, unmaps nothing and leaves the counter
  alone; its only possible call is the Valgrind deregistration, which precedes the check
  and happens only under Valgrind. Otherwise the counter is decremented and the block at
  \<open>bottom - (stacksize + guardsize)\<close> is released, with \<open>free\<close> when
  \<open>guardsize \<le> 0\<close> and with \<open>munmap\<close> of \<open>stacksize + guardsize\<close> bytes when
  \<open>guardsize > 0\<close>. The function returns nothing, so no error is reported.
\<close>

theorem deallocate_degenerate_is_noop:
  "(let w' = deallocate_stack_storage env w s;
        memsize = stacksize s + guardsize s;
        deregistration = (if RunningOnValgrind env
                          then [ValgrindDeregister (valgrind_stack_id s)] else [])
    in trace w' = trace w @ new_events w w'
     \<and> (if bottom s \<le> scast memsize
        then s_stack_count w' = s_stack_count w \<and> heap w' = heap w
           \<and> mappings w' = mappings w
           \<and> new_events w w' = deregistration
        else s_stack_count w' = s_stack_count w - 1
           \<and> (if sint (guardsize s) \<le> 0
               then new_events w w' = deregistration @ [Free (bottom s - scast memsize)]
                  \<and> heap w' = remove1 (bottom s - scast memsize) (heap w)
                  \<and> mappings w' = mappings w
               else new_events w w'
                      = deregistration @ [Munmap (bottom s - scast memsize) (scast memsize)]
                  \<and> mappings w' = remove1 (bottom s - scast memsize, scast memsize) (mappings w)
                  \<and> heap w' = heap w)))"
  by (simp add: dealloc_defs)

theorem deallocate_degenerate_is_noop_witness:
  "deallocate_stack_storage demo_os empty_world zero_storage = empty_world
   \<and> deallocate_stack_storage demo_os
        \<lparr>s_stack_count = 1, heap = [65536], mappings = [], trace = []\<rparr>
        \<lparr>bottom = 77824, stacksize = 12288, guardsize = 0, valgrind_stack_id = 0\<rparr>
      = \<lparr>s_stack_count = 0, heap = [], mappings = [], trace = [Free 65536]\<rparr>
   \<and> deallocate_stack_storage demo_os
        \<lparr>s_stack_count = 1, heap = [], mappings = [(0x7f0000000000, 16384)], trace = []\<rparr>
        \<lparr>bottom = 0x7f0000004000, stacksize = 12288, guardsize = 4096, valgrind_stack_id = 0\<rparr>
      = \<lparr>s_stack_count = 0, heap = [], mappings = [], trace = [Munmap 0x7f0000000000 16384]\<rparr>"
  using deallocate_degenerate_is_noop [where env = demo_os and w = empty_world and s = zero_storage]
        deallocate_degenerate_is_noop [where env = demo_os
          and w = "\<lparr>s_stack_count = 1, heap = [65536], mappings = [], trace = []\<rparr>"
          and s = "\<lparr>bottom = 77824, stacksize = 12288, guardsize = 0, valgrind_stack_id = 0\<rparr>"]
        deallocate_degenerate_is_noop [where env = demo_os
          and w = "\<lparr>s_stack_count = 1, heap = [], mappings = [(0x7f0000000000, 16384)],
                    trace = []\<rparr>"
          and s = "\<lparr>bottom = 0x7f0000004000, stacksize = 12288, guardsize = 4096,
                    valgrind_stack_id = 0\<rparr>"]
  by (simp add: dealloc_defs demo_os_def empty_world_def zero_storage_def)

text \<open>
  C6. A successful \<open>allocate_stack_storage\<close> increments the live-stack counter by
  one, \<open>deallocate_stack_storage\<close> of the storage it filled decrements it by one, so
  the pair restores the counter; a failed allocation leaves the counter unchanged. The
  system is assumed to hand out blocks that lie inside the address space.
\<close>

theorem allocate_deallocate_restores_count:
  assumes "malloc_ok env" and "mmap_ok env"
  shows "(case allocate_stack_storage env w s S G of (r, s', w') \<Rightarrow>
           (if r = 0
            then s_stack_count w' = s_stack_count w + 1
               \<and> s_stack_count (deallocate_stack_storage env w' s') = s_stack_count w' - 1
               \<and> s_stack_count (deallocate_stack_storage env w' s') = s_stack_count w
            else s_stack_count w' = s_stack_count w))"
proof -
  obtain r s' w' where a: "allocate_stack_storage env w s S G = (r, s', w')"
    by (cases "allocate_stack_storage env w s S G")
  show ?thesis
  proof (cases "r = 0")
    case False
    then show ?thesis using a allocate_failure_count [OF a] by simp
  next
    case True
    have ok: "allocate_stack_storage env w s S G = (0, s', w')" using a True by simp
    have "\<not> bottom s' \<le> scast (stacksize s' + guardsize s')
          \<and> s_stack_count w' = s_stack_count w + 1"
    proof (cases "sint G \<le> 0")
      case True
      note f = allocate_success_unguarded [OF True ok]
      let ?n = "scast (rounded_stacksize env S) :: addr"
      have "uint (malloc_ret env ?n) + uint ?n < 2 ^ 64"
        using assms(1) f(1) by (simp add: malloc_ok_def)
      with f(1) have "\<not> malloc_ret env ?n + ?n \<le> ?n"
        unfolding NULL_def by (rule no_wrap_above)
      then show ?thesis using f by simp
    next
      case False
      note f = allocate_success_guarded [OF False ok]
      let ?n = "scast (total_memsize env S G) :: addr"
      have "mapped_mem env S G \<noteq> NULL \<and> uint (mapped_mem env S G) + uint ?n < 2 ^ 64"
        using assms(2) f(1) by (simp add: mmap_ok_def mapped_mem_def)
      then have "\<not> mapped_mem env S G + ?n \<le> ?n"
        unfolding NULL_def by (intro no_wrap_above) simp_all
      then show ?thesis using f by (simp add: total_memsize_def)
    qed
    then show ?thesis using a True deallocate_count [of s' env w'] by simp
  qed
qed

theorem allocate_deallocate_restores_count_witness:
  "malloc_ok demo_os \<and> mmap_ok demo_os
   \<and> fst (allocate_stack_storage demo_os empty_world zero_storage 10000 4096) = 0
   \<and> s_stack_count (snd (snd (allocate_stack_storage demo_os empty_world zero_storage 10000 4096))) = 1
   \<and> s_stack_count (deallocate_stack_storage demo_os
        (snd (snd (allocate_stack_storage demo_os empty_world zero_storage 10000 4096)))
        (fst (snd (allocate_stack_storage demo_os empty_world zero_storage 10000 4096)))) = 0
   \<and> fst (allocate_stack_storage demo_os empty_world zero_storage 10000 0) = 0
   \<and> s_stack_count (deallocate_stack_storage demo_os
        (snd (snd (allocate_stack_storage demo_os empty_world zero_storage 10000 0)))
        (fst (snd (allocate_stack_storage demo_os empty_world zero_storage 10000 0)))) = 0
   \<and> fst (allocate_stack_storage demo_os empty_world zero_storage 0x200000 0) = - 1
   \<and> s_stack_count (snd (snd (allocate_stack_storage demo_os empty_world zero_storage 0x200000 0))) = 0"
  using allocate_deallocate_restores_count [OF demo_malloc_ok demo_mmap_ok,
          where w = empty_world and s = zero_storage and S = 10000 and G = 4096]
        allocate_deallocate_restores_count [OF demo_malloc_ok demo_mmap_ok,
          where w = empty_world and s = zero_storage and S = 10000 and G = 0]
        allocate_deallocate_restores_count [OF demo_malloc_ok demo_mmap_ok,
          where w = empty_world and s = zero_storage and S = "0x200000" and G = 0]
        demo_malloc_ok demo_mmap_ok
  by (simp add: alloc_defs dealloc_defs demo_os_def empty_world_def zero_storage_def
      align_size_def std_max_def MAP_FAILED_def NULL_def)

section \<open>Properties of the context switch\<close>

subsection \<open>Memory: what is stored is what is loaded, and nothing else changes\<close>

lemma ucast_byte_of: "(ucast (byte_of (v :: 'a::len word) i) :: 'a word) = take_bit 8 (drop_bit (8 * i) v)"
  unfolding byte_of_def by (rule bit_eqI) (auto simp add: bit_simps)

lemma bit_piece:
  "bit (push_bit k (take_bit 8 (drop_bit k (v :: 'a::len word)))) n \<longleftrightarrow> k \<le> n \<and> n < k + 8 \<and> bit v n"
  by (auto simp add: bit_simps dest: bit_imp_le_length)

lemma bit_piece0:
  "bit (take_bit 8 (drop_bit 0 (v :: 'a::len word))) n \<longleftrightarrow> n < 8 \<and> bit v n"
  by (auto simp add: bit_simps)

lemma bytes64: 
  "ucast (byte_of v 0) OR push_bit 8 (ucast (byte_of v 1))
       OR push_bit 16 (ucast (byte_of v 2)) OR push_bit 24 (ucast (byte_of v 3))
       OR push_bit 32 (ucast (byte_of v 4)) OR push_bit 40 (ucast (byte_of v 5))
       OR push_bit 48 (ucast (byte_of v 6)) OR push_bit 56 (ucast (byte_of v 7)) = (v :: 64 word)"
proof (rule bit_eqI, goal_cases)
  case (1 n)
  have "bit v n \<Longrightarrow> n < 64" using bit_imp_le_length [of v n] by simp
  then show ?case
    unfolding ucast_byte_of bit_or_iff
    by (cases "bit v n") (simp_all add: bit_piece bit_take_bit_iff, arith)
qed

lemma bytes32: 
  "ucast (byte_of v 0) OR push_bit 8 (ucast (byte_of v 1))
       OR push_bit 16 (ucast (byte_of v 2)) OR push_bit 24 (ucast (byte_of v 3)) = (v :: 32 word)"
proof (rule bit_eqI, goal_cases)
  case (1 n)
  have "bit v n \<Longrightarrow> n < 32" using bit_imp_le_length [of v n] by simp
  then show ?case
    unfolding ucast_byte_of bit_or_iff
    by (cases "bit v n") (simp_all add: bit_piece bit_take_bit_iff, arith)
qed

lemma bytes16: 
  "ucast (byte_of v 0) OR push_bit 8 (ucast (byte_of v 1)) = (v :: 16 word)"
proof (rule bit_eqI, goal_cases)
  case (1 n)
  have "bit v n \<Longrightarrow> n < 16" using bit_imp_le_length [of v n] by simp
  then show ?case
    unfolding ucast_byte_of bit_or_iff
    by (cases "bit v n") (simp_all add: bit_piece bit_take_bit_iff, arith)
qed

lemma load64_store64 [simp]: "load64 (store64 a v m) a = v"
proof -
  have "in_range a 8 a" "in_range a 8 (a + 1)" "in_range a 8 (a + 2)" "in_range a 8 (a + 3)"
    "in_range a 8 (a + 4)" "in_range a 8 (a + 5)" "in_range a 8 (a + 6)" "in_range a 8 (a + 7)"
    by (simp_all add: in_range_def)
  then show ?thesis
    using bytes64 [of v] by (simp add: load64_def store64_def store_le_def)
qed

lemma load32_store32 [simp]: "load32 (store32 a v m) a = v"
proof -
  have "in_range a 4 a" "in_range a 4 (a + 1)" "in_range a 4 (a + 2)" "in_range a 4 (a + 3)"
    by (simp_all add: in_range_def)
  then show ?thesis
    using bytes32 [of v] by (simp add: load32_def store32_def store_le_def)
qed

lemma load16_store16 [simp]: "load16 (store16 a v m) a = v"
proof -
  have "in_range a 2 a" "in_range a 2 (a + 1)"
    by (simp_all add: in_range_def)
  then show ?thesis
    using bytes16 [of v] by (simp add: load16_def store16_def store_le_def)
qed

lemma apart_not_in_range:
  assumes "apart a n b k" and "unat i < k"
  shows "\<not> in_range a n (b + i)"
proof -
  have "unat (b - a) + unat i < 2 ^ LENGTH(64)" using assms by (simp add: apart_def)
  then have u: "unat ((b - a) + i) = unat (b - a) + unat i" by (simp only: unat_add_lem)
  have e: "b + i - a = (b - a) + i" by simp
  have "unat (b + i - a) = unat (b - a) + unat i" unfolding e by (rule u)
  then show ?thesis using assms(1) by (simp add: in_range_def apart_def)
qed

lemma in_range_offset:
  assumes "in_range b k x"
  shows "\<exists>i. x = b + i \<and> unat i < k"
  using assms by (intro exI [of _ "x - b"]) (simp add: in_range_def)

lemma store_le_apart:
  assumes "apart a n b k" and "in_range b k x"
  shows "store_le n a v m x = m x"
proof -
  obtain i where "x = b + i" "unat i < k" using in_range_offset [OF assms(2)] by blast
  then have "\<not> in_range a n x" using apart_not_in_range [OF assms(1)] by simp
  then show ?thesis by (simp add: store_le_def)
qed

lemma store_le_outside: "\<not> in_range a n x \<Longrightarrow> store_le n a v m x = m x"
  by (simp add: store_le_def)

lemma load64_unchanged:
  assumes "\<And>x. in_range b 8 x \<Longrightarrow> m' x = m x"
  shows "load64 m' b = load64 m b"
proof -
  have "in_range b 8 b" "in_range b 8 (b + 1)" "in_range b 8 (b + 2)" "in_range b 8 (b + 3)"
    "in_range b 8 (b + 4)" "in_range b 8 (b + 5)" "in_range b 8 (b + 6)" "in_range b 8 (b + 7)"
    by (simp_all add: in_range_def)
  then show ?thesis by (simp add: load64_def assms)
qed

lemma load32_unchanged:
  assumes "\<And>x. in_range b 4 x \<Longrightarrow> m' x = m x"
  shows "load32 m' b = load32 m b"
proof -
  have "in_range b 4 b" "in_range b 4 (b + 1)" "in_range b 4 (b + 2)" "in_range b 4 (b + 3)"
    by (simp_all add: in_range_def)
  then show ?thesis by (simp add: load32_def assms)
qed

lemma load16_unchanged:
  assumes "\<And>x. in_range b 2 x \<Longrightarrow> m' x = m x"
  shows "load16 m' b = load16 m b"
proof -
  have "in_range b 2 b" "in_range b 2 (b + 1)"
    by (simp_all add: in_range_def)
  then show ?thesis by (simp add: load16_def assms)
qed

lemma load64_store64_apart [simp]:
  "apart a 8 b 8 \<Longrightarrow> load64 (store64 a v m) b = load64 m b"
  unfolding store64_def by (rule load64_unchanged) (rule store_le_apart)

lemma load64_store32_apart [simp]:
  "apart a 4 b 8 \<Longrightarrow> load64 (store32 a v m) b = load64 m b"
  unfolding store32_def by (rule load64_unchanged) (rule store_le_apart)

lemma load64_store16_apart [simp]:
  "apart a 2 b 8 \<Longrightarrow> load64 (store16 a v m) b = load64 m b"
  unfolding store16_def by (rule load64_unchanged) (rule store_le_apart)

lemma load32_store_apart [simp]:
  "apart a 8 b 4 \<Longrightarrow> load32 (store64 a v m) b = load32 m b"
  "apart a 2 b 4 \<Longrightarrow> load32 (store16 a w m) b = load32 m b"
  unfolding store64_def store16_def
  by (rule load32_unchanged, rule store_le_apart, assumption+)+

lemma load16_store_apart [simp]:
  "apart a 8 b 2 \<Longrightarrow> load16 (store64 a v m) b = load16 m b"
  "apart a 4 b 2 \<Longrightarrow> load16 (store32 a w m) b = load16 m b"
  unfolding store64_def store32_def
  by (rule load16_unchanged, rule store_le_apart, assumption+)+

lemma load_store_same_width_apart [simp]:
  "apart a 4 b 4 \<Longrightarrow> load32 (store32 a v m) b = load32 m b"
  "apart a 2 b 2 \<Longrightarrow> load16 (store16 a w m) b = load16 m b"
  unfolding store32_def store16_def
  by (rule load32_unchanged load16_unchanged, rule store_le_apart, assumption+)+

lemma load64_zero [simp]: "load64 (\<lambda>x. 0) a = 0"
  by (simp add: load64_def)

lemma apart_widen:
  assumes "apart a N b k" and "n + unat d \<le> N"
  shows "apart (a + d) n b k"
proof -
  have "unat d \<le> unat (b - a)" using assms by (simp add: apart_def)
  then have "d \<le> b - a" by (simp add: word_le_nat_alt)
  then have u: "unat ((b - a) - d) = unat (b - a) - unat d" by (rule unat_sub)
  have e: "b - (a + d) = (b - a) - d" by simp
  have "unat (b - (a + d)) = unat (b - a) - unat d" unfolding e by (rule u)
  then show ?thesis using assms unfolding apart_def by arith
qed


lemma apart_same_base [simp]:
  "apart (t - a) n (t - b) k \<longleftrightarrow> n \<le> unat (a - b) \<and> unat (a - b) + k \<le> 2 ^ 64"
  by (simp add: apart_def)

lemma in_range_widen:
  assumes "in_range (a + d) n x" and "n + unat d \<le> N"
  shows "in_range a N x"
proof -
  have le: "unat (p + q) \<le> unat p + unat q" for p q :: "64 word"
    by (simp add: unat_word_ariths)
  have "x - a = (x - (a + d)) + d" by simp
  then have "unat (x - a) = unat ((x - (a + d)) + d)" by (rule arg_cong)
  then have "unat (x - a) \<le> unat (x - (a + d)) + unat d"
    using le [of "x - (a + d)" d] by simp
  then show ?thesis using assms by (simp add: in_range_def)
qed

subsection \<open>The effect of each instruction, field by field\<close>

lemma pushq_simps [simp]:
  "regs (pushq r s) x = (if x = RSP then regs s RSP - 8 else regs s x)"
  "mem (pushq r s) = store64 (regs s RSP - 8) (regs s r) (mem s)"
  "rip (pushq r s) = rip s" "mxcsr (pushq r s) = mxcsr s" "fpu_cw (pushq r s) = fpu_cw s"
  by (simp_all add: pushq_def Let_def)

lemma popq_simps [simp]:
  "regs (popq r s) x = (if x = r then load64 (mem s) (regs s RSP)
                        else if x = RSP then regs s RSP + 8 else regs s x)"
  "mem (popq r s) = mem s"
  "rip (popq r s) = rip s" "mxcsr (popq r s) = mxcsr s" "fpu_cw (popq r s) = fpu_cw s"
  by (simp_all add: popq_def Let_def)

lemma leaq_simps [simp]:
  "regs (leaq disp base dst s) x = (if x = dst then regs s base + disp else regs s x)"
  "mem (leaq disp base dst s) = mem s"
  "rip (leaq disp base dst s) = rip s" "mxcsr (leaq disp base dst s) = mxcsr s"
  "fpu_cw (leaq disp base dst s) = fpu_cw s"
  by (simp_all add: leaq_def)

lemma leaq_rip_simps [simp]:
  "regs (leaq_rip l dst s) x = (if x = dst then l else regs s x)"
  "mem (leaq_rip l dst s) = mem s"
  "rip (leaq_rip l dst s) = rip s" "mxcsr (leaq_rip l dst s) = mxcsr s"
  "fpu_cw (leaq_rip l dst s) = fpu_cw s"
  by (simp_all add: leaq_rip_def)

lemma movq_simps [simp]:
  "regs (movq src dst s) x = (if x = dst then regs s src else regs s x)"
  "mem (movq src dst s) = mem s"
  "rip (movq src dst s) = rip s" "mxcsr (movq src dst s) = mxcsr s"
  "fpu_cw (movq src dst s) = fpu_cw s"
  by (simp_all add: movq_def)

lemma movq_store_simps [simp]:
  "regs (movq_store src disp base s) x = regs s x"
  "mem (movq_store src disp base s) = store64 (regs s base + disp) (regs s src) (mem s)"
  "rip (movq_store src disp base s) = rip s" "mxcsr (movq_store src disp base s) = mxcsr s"
  "fpu_cw (movq_store src disp base s) = fpu_cw s"
  by (simp_all add: movq_store_def)

lemma andq_imm_simps [simp]:
  "regs (andq_imm imm dst s) x = (if x = dst then regs s dst AND imm else regs s x)"
  "mem (andq_imm imm dst s) = mem s"
  "rip (andq_imm imm dst s) = rip s" "mxcsr (andq_imm imm dst s) = mxcsr s"
  "fpu_cw (andq_imm imm dst s) = fpu_cw s"
  by (simp_all add: andq_imm_def)

lemma xorq_simps [simp]:
  "regs (xorq src dst s) x = (if x = dst then regs s dst XOR regs s src else regs s x)"
  "mem (xorq src dst s) = mem s"
  "rip (xorq src dst s) = rip s" "mxcsr (xorq src dst s) = mxcsr s"
  "fpu_cw (xorq src dst s) = fpu_cw s"
  by (simp_all add: xorq_def)

lemma stmxcsr_simps [simp]:
  "regs (stmxcsr disp base s) x = regs s x"
  "mem (stmxcsr disp base s) = store32 (regs s base + disp) (mxcsr s) (mem s)"
  "rip (stmxcsr disp base s) = rip s" "mxcsr (stmxcsr disp base s) = mxcsr s"
  "fpu_cw (stmxcsr disp base s) = fpu_cw s"
  by (simp_all add: stmxcsr_def)

lemma fnstcw_simps [simp]:
  "regs (fnstcw disp base s) x = regs s x"
  "mem (fnstcw disp base s) = store16 (regs s base + disp) (fpu_cw s) (mem s)"
  "rip (fnstcw disp base s) = rip s" "mxcsr (fnstcw disp base s) = mxcsr s"
  "fpu_cw (fnstcw disp base s) = fpu_cw s"
  by (simp_all add: fnstcw_def)

lemma ldmxcsr_simps [simp]:
  "regs (ldmxcsr disp base s) x = regs s x"
  "mem (ldmxcsr disp base s) = mem s"
  "rip (ldmxcsr disp base s) = rip s"
  "mxcsr (ldmxcsr disp base s) = load32 (mem s) (regs s base + disp)"
  "fpu_cw (ldmxcsr disp base s) = fpu_cw s"
  by (simp_all add: ldmxcsr_def)

lemma fldcw_simps [simp]:
  "regs (fldcw disp base s) x = regs s x"
  "mem (fldcw disp base s) = mem s"
  "rip (fldcw disp base s) = rip s"
  "mxcsr (fldcw disp base s) = mxcsr s"
  "fpu_cw (fldcw disp base s) = load16 (mem s) (regs s base + disp)"
  by (simp_all add: fldcw_def)

lemma jmp_simps [simp]:
  "regs (jmp r s) x = regs s x" "mem (jmp r s) = mem s" "rip (jmp r s) = regs s r"
  "mxcsr (jmp r s) = mxcsr s" "fpu_cw (jmp r s) = fpu_cw s"
  by (simp_all add: jmp_def)

lemma ret_simps [simp]:
  "regs (ret s) x = (if x = RSP then regs s RSP + 8 else regs s x)" "mem (ret s) = mem s"
  "rip (ret s) = load64 (mem s) (regs s RSP)"
  "mxcsr (ret s) = mxcsr s" "fpu_cw (ret s) = fpu_cw s"
  by (simp_all add: ret_def Let_def)

lemma callq_simps [simp]:
  "regs (callq t ra s) x = (if x = RSP then regs s RSP - 8 else regs s x)"
  "mem (callq t ra s) = store64 (regs s RSP - 8) ra (mem s)"
  "rip (callq t ra s) = t"
  "mxcsr (callq t ra s) = mxcsr s" "fpu_cw (callq t ra s) = fpu_cw s"
  by (simp_all add: callq_def Let_def)

lemma unless_zero_simps [simp]:
  "regs (unless_zero r b s) x = (if regs s r = 0 then regs s x else regs (exec b s) x)"
  "mem (unless_zero r b s) = (if regs s r = 0 then mem s else mem (exec b s))"
  "rip (unless_zero r b s) = (if regs s r = 0 then rip s else rip (exec b s))"
  "mxcsr (unless_zero r b s) = (if regs s r = 0 then mxcsr s else mxcsr (exec b s))"
  "fpu_cw (unless_zero r b s) = (if regs s r = 0 then fpu_cw s else fpu_cw (exec b s))"
  by (simp_all add: unless_zero_def)

lemma a_sub_simps [simp]:
  "aregs (a_sub dst src imm s) x = (if x = dst then aregs s src - imm else aregs s x)"
  "amem (a_sub dst src imm s) = amem s" "pc (a_sub dst src imm s) = pc s"
  by (simp_all add: a_sub_def)

lemma a_add_simps [simp]:
  "aregs (a_add dst src imm s) x = (if x = dst then aregs s src + imm else aregs s x)"
  "amem (a_add dst src imm s) = amem s" "pc (a_add dst src imm s) = pc s"
  by (simp_all add: a_add_def)

lemma a_mov_simps [simp]:
  "aregs (a_mov dst src s) x = (if x = dst then aregs s src else aregs s x)"
  "amem (a_mov dst src s) = amem s" "pc (a_mov dst src s) = pc s"
  by (simp_all add: a_mov_def)

lemma a_stp_simps [simp]:
  "aregs (a_stp r1 r2 base off s) x = aregs s x"
  "amem (a_stp r1 r2 base off s) =
     store64 (aregs s base + off + 8) (aregs s r2)
       (store64 (aregs s base + off) (aregs s r1) (amem s))"
  "pc (a_stp r1 r2 base off s) = pc s"
  by (simp_all add: a_stp_def)

lemma a_str_simps [simp]:
  "aregs (a_str r base off s) x = aregs s x"
  "amem (a_str r base off s) = store64 (aregs s base + off) (aregs s r) (amem s)"
  "pc (a_str r base off s) = pc s"
  by (simp_all add: a_str_def)

lemma a_ldp_simps [simp]:
  "aregs (a_ldp r1 r2 base off s) x =
     (if x = r2 then load64 (amem s) (aregs s base + off + 8)
      else if x = r1 then load64 (amem s) (aregs s base + off) else aregs s x)"
  "amem (a_ldp r1 r2 base off s) = amem s" "pc (a_ldp r1 r2 base off s) = pc s"
  by (simp_all add: a_ldp_def)

lemma a_ldr_simps [simp]:
  "aregs (a_ldr r base off s) x =
     (if x = r then load64 (amem s) (aregs s base + off) else aregs s x)"
  "amem (a_ldr r base off s) = amem s" "pc (a_ldr r base off s) = pc s"
  by (simp_all add: a_ldr_def)

lemma a_ret_simps [simp]:
  "aregs (a_ret r s) x = aregs s x" "amem (a_ret r s) = amem s" "pc (a_ret r s) = aregs s r"
  by (simp_all add: a_ret_def)

subsection \<open>The \<open>linux_x86_64\<close> routines\<close>

lemma jump_regs:
  "regs (bthread_jump_fcontext s) RAX = regs s RDX"
  "regs (bthread_jump_fcontext s) RDI = regs s RDX"
  "regs (bthread_jump_fcontext s) RSP = regs s RSI + 0x40"
  by (simp_all add: bthread_jump_fcontext_def)

lemma jump_mem:
  "mem (bthread_jump_fcontext s) =
     store64 (regs s RDI) (regs s RSP - 0x38)
       ((if regs s RCX = 0 then id
         else store16 (regs s RSP - 0x34) (fpu_cw s) \<circ> store32 (regs s RSP - 0x38) (mxcsr s))
        (store64 (regs s RSP - 0x30) (regs s R12)
        (store64 (regs s RSP - 0x28) (regs s R13)
        (store64 (regs s RSP - 0x20) (regs s R14)
        (store64 (regs s RSP - 0x18) (regs s R15)
        (store64 (regs s RSP - 0x10) (regs s RBX)
        (store64 (regs s RSP - 0x8) (regs s RBP) (mem s))))))))"
  by (simp add: bthread_jump_fcontext_def)


lemma below_sp_apart:
  assumes "apart (sp - 0x38) 0x38 b k"
  shows "apart (sp - 0x8) 8 b k" "apart (sp - 0x10) 8 b k" "apart (sp - 0x18) 8 b k"
    "apart (sp - 0x20) 8 b k" "apart (sp - 0x28) 8 b k" "apart (sp - 0x30) 8 b k"
    "apart (sp - 0x38) 4 b k" "apart (sp - 0x34) 2 b k" "apart (sp - 0x38) 8 b k"
  using apart_widen [OF assms, where n = 8 and d = "0x30"]
        apart_widen [OF assms, where n = 8 and d = "0x28"]
        apart_widen [OF assms, where n = 8 and d = "0x20"]
        apart_widen [OF assms, where n = 8 and d = "0x18"]
        apart_widen [OF assms, where n = 8 and d = "0x10"]
        apart_widen [OF assms, where n = 8 and d = "0x8"]
        apart_widen [OF assms, where n = 4 and d = 0]
        apart_widen [OF assms, where n = 2 and d = "0x4"]
        apart_widen [OF assms, where n = 8 and d = 0]
  by simp_all

lemma jump_preserves:
  assumes "switch_leaves s b"
  shows "load64 (mem (bthread_jump_fcontext s)) b = load64 (mem s) b"
proof -
  have A: "apart (regs s RSP - 0x38) 0x38 b 8" and B: "apart (regs s RDI) 8 b 8"
    using assms by (simp_all add: switch_leaves_def)
  note below_sp_apart [OF A]
  then show ?thesis unfolding jump_mem using B by (cases "regs s RCX = 0") simp_all
qed




lemma make_regs:
  "regs (bthread_make_fcontext fin s) RAX = (regs s RDI AND - 16) - 0x48"
  "regs (bthread_make_fcontext fin s) RCX = fin"
  "regs (bthread_make_fcontext fin s) RSP = regs s RSP + 8"
  "x \<noteq> RAX \<Longrightarrow> x \<noteq> RCX \<Longrightarrow> x \<noteq> RSP \<Longrightarrow> regs (bthread_make_fcontext fin s) x = regs s x"
  "mxcsr (bthread_make_fcontext fin s) = mxcsr s"
  "fpu_cw (bthread_make_fcontext fin s) = fpu_cw s"
  by (simp_all add: bthread_make_fcontext_def)

lemma make_mem:
  "mem (bthread_make_fcontext fin s) =
     (let fc = (regs s RDI AND - 16) - 0x48 in
      store64 (fc + 0x40) fin
        (store16 (fc + 0x4) (fpu_cw s)
          (store32 fc (mxcsr s)
            (store64 (fc + 0x38) (regs s RDX) (mem s)))))"
  by (simp add: bthread_make_fcontext_def Let_def add.commute)

lemma make_rip:
  "rip (bthread_make_fcontext fin s) = load64 (mem (bthread_make_fcontext fin s)) (regs s RSP)"
  unfolding make_mem by (simp add: bthread_make_fcontext_def Let_def add.commute)

lemma make_slots:
  "load64 (mem (bthread_make_fcontext fin s)) (regs (bthread_make_fcontext fin s) RAX + 0x38)
     = regs s RDX"
  "load64 (mem (bthread_make_fcontext fin s)) (regs (bthread_make_fcontext fin s) RAX + 0x40)
     = fin"
  unfolding make_mem make_regs by (simp_all add: Let_def)

lemma make_fpu_slots:
  "load32 (mem (bthread_make_fcontext fin s)) (regs (bthread_make_fcontext fin s) RAX) = mxcsr s"
  "load16 (mem (bthread_make_fcontext fin s)) (regs (bthread_make_fcontext fin s) RAX + 4)
     = fpu_cw s"
  unfolding make_mem make_regs by (simp_all add: Let_def)

lemma make_mem_outside:
  assumes "\<not> in_range (regs (bthread_make_fcontext fin s) RAX) 6 x"
      and "\<not> in_range (regs (bthread_make_fcontext fin s) RAX + 0x38) 16 x"
  shows "mem (bthread_make_fcontext fin s) x = mem s x"
proof -
  define t where "t = regs s RDI AND - 16"
  have a: "\<not> in_range (t - 72) 6 x" "\<not> in_range (t - 16) 16 x"
    using assms by (simp_all add: make_regs t_def)
  have "\<not> in_range (t - 72) 4 x"
    using a(1) in_range_widen [of "t - 72" 0 4 x 6] by auto
  moreover have "\<not> in_range (t - 68) 2 x"
    using a(1) in_range_widen [of "t - 72" 4 2 x 6] by auto
  moreover have "\<not> in_range (t - 16) 8 x"
    using a(2) in_range_widen [of "t - 16" 0 8 x 16] by auto
  moreover have "\<not> in_range (t - 8) 8 x"
    using a(2) in_range_widen [of "t - 16" 8 8 x 16] by auto
  ultimately show ?thesis
    unfolding make_mem
    by (simp add: Let_def t_def [symmetric] store64_def store32_def store16_def store_le_outside)
qed

lemma bit_8_iff: "bit (8 :: int) n \<longleftrightarrow> n = 3"
proof -
  have "bit (2 ^ 3 :: int) n \<longleftrightarrow> n = 3" by (simp only: bit_exp_iff) auto
  then show ?thesis by simp
qed

lemma bit_15_iff: "bit (15 :: int) n \<longleftrightarrow> n < 4"
proof -
  have "bit (mask 4 :: int) n \<longleftrightarrow> n < 4" by (simp only: bit_mask_iff) auto
  then show ?thesis by (simp add: mask_eq_exp_minus_1)
qed

lemma frame_not_aligned: "(((x :: 64 word) AND - 16) - 0x48) AND 0xF = 8"
proof -
  define z where "z = drop_bit 4 x - 5"
  have "(- 16 :: 64 word) = NOT (mask 4)" by (simp add: mask_eq_exp_minus_1)
  then have "x AND - 16 = push_bit 4 (drop_bit 4 x)" by (simp only: and_not_mask_push)
  then have "(x AND - 16) - 0x48 = push_bit 4 z + 8"
    by (simp add: z_def push_bit_eq_mult algebra_simps)
  also have "\<dots> = push_bit 4 z OR 8"
    by (rule disjunctive_add_eq_or) (rule bit_eqI, auto simp add: bit_simps bit_8_iff)
  finally have "((x AND - 16) - 0x48) AND 15 = (push_bit 4 z OR 8) AND 15"
    by simp
  also have "\<dots> = 8"
    by (rule bit_eqI) (auto simp add: bit_simps bit_8_iff bit_15_iff)
  finally show ?thesis by simp
qed

lemma frame_below_top:
  assumes "0x50 \<le> (x :: 64 word)"
  shows "(x AND - 16) - 0x48 < x"
proof -
  let ?y = "x AND - 16"
  have m: "(- 16 :: 64 word) = NOT (mask 4)" by (simp add: mask_eq_exp_minus_1)
  have u: "uint ?y = (uint x div 16) * 16"
    unfolding m using uint_and_not_mask [of x 4] by simp
  have x: "80 \<le> uint x" using assms by (simp add: word_le_def)
  have y: "80 \<le> uint ?y" "uint ?y \<le> uint x" unfolding u using x by simp_all
  then have "(0x48 :: 64 word) \<le> ?y" by (simp add: word_le_def)
  then have "uint (?y - 0x48) = uint ?y - uint (0x48 :: 64 word)"
    by (simp only: uint_minus_simple_alt)
  then show ?thesis using y by (simp add: word_less_def)
qed



subsection \<open>The \<open>linux_arm64\<close> switch\<close>






subsection \<open>Unfolding the concrete states\<close>

lemmas x64_demo_defs = x64_making_def x64_made_def x64_switching_def with_args_def x64_boot_def
  bthread_make_fcontext_def bthread_jump_fcontext_def apart_def switch_leaves_def

lemmas x64_demo_defs2 = x64_demo_defs x64_in_entry_def x64_entry_call_def x64_resuming_def


section \<open>Claims about the context switch\<close>



text \<open>
  C2. Let the switch into a context built by \<open>bthread_make_fcontext\<close> start the
  entry function, and let the entry function return normally: it executes \<open>ret\<close>
  in a state \<open>u\<close> whose stack pointer is the one it was entered with and whose return
  slot is as it found it. Then control is at the trampoline \<open>finish\<close>, which calls
  \<open>_exit(0)\<close>: the process has exited with status 0 and no code runs afterwards.
\<close>

theorem entry_return_exits:
  assumes ctx: "regs s RSI = regs (bthread_make_fcontext fin k) RAX"
      and intact: "load64 (mem s) (regs s RSI + 0x40)
                     = load64 (mem (bthread_make_fcontext fin k)) (regs s RSI + 0x40)"
      and leaves: "switch_leaves s (regs s RSI + 0x40)"
      and sp: "regs u RSP = regs (bthread_jump_fcontext s) RSP"
      and slot: "load64 (mem u) (regs u RSP)
                   = load64 (mem (bthread_jump_fcontext s)) (regs (bthread_jump_fcontext s) RSP)"
  shows "rip (ret u) = fin \<and> continue_at fin (ret u) = Exited 0
       \<and> (\<forall>v. continue_at fin (ret u) \<noteq> Running v)"
proof -
  have "rip (ret u) = load64 (mem (bthread_jump_fcontext s)) (regs s RSI + 0x40)"
    using sp slot by (simp add: jump_regs)
  also have "\<dots> = load64 (mem s) (regs s RSI + 0x40)"
    using leaves by (rule jump_preserves)
  also have "\<dots> = fin" unfolding intact unfolding ctx by (rule make_slots)
  finally have r: "rip (ret u) = fin" .
  then show ?thesis by (simp add: continue_at_def finish_def c_exit_def)
qed

theorem entry_return_exits_witness:
  "regs x64_switching RSI = regs x64_made RAX
   \<and> load64 (mem x64_switching) (regs x64_switching RSI + 0x40)
       = load64 (mem x64_made) (regs x64_switching RSI + 0x40)
   \<and> switch_leaves x64_switching (regs x64_switching RSI + 0x40)
   \<and> rip (ret (bthread_jump_fcontext x64_switching)) = 0x400f00
   \<and> continue_at 0x400f00 (ret (bthread_jump_fcontext x64_switching)) = Exited 0"
proof -
  have h1: "regs x64_switching RSI = regs (bthread_make_fcontext 0x400f00 x64_making) RAX"
    by (simp add: x64_demo_defs2)
  have h2: "load64 (mem x64_switching) (regs x64_switching RSI + 0x40)
       = load64 (mem (bthread_make_fcontext 0x400f00 x64_making)) (regs x64_switching RSI + 0x40)"
    by (simp add: x64_demo_defs2)
  have h3: "switch_leaves x64_switching (regs x64_switching RSI + 0x40)"
    by (simp add: x64_demo_defs2)
  show ?thesis
    unfolding x64_made_def
    using entry_return_exits [OF h1 h2 h3 refl refl] h1 h2 h3 by simp
qed

text \<open>
  C9 (amended). \<open>bthread_make_fcontext\<close> only sets up memory: it rounds
  \<open>stack_top\<close> (\<open>rdi\<close>) down to a 16-byte boundary and returns in \<open>rax\<close> the
  address \<open>0x48\<close> bytes below that boundary, which is 8 modulo 16 and hence not itself
  16-byte aligned; the frame is below \<open>stack_top\<close> when \<open>stack_top\<close> is at
  least \<open>0x50\<close>. It stores the address of the entry function (\<open>rdx\<close>) at offset
  \<open>0x38\<close> of the frame, the resume target, the address of the trampoline at offset
  \<open>0x40\<close>, the return address the entry function will see, and the current MXCSR and
  x87 control word at offsets 0 and 4. Nothing else in memory changes, \<open>stack_size\<close>
  (\<open>rsi\<close>) is not read, and control returns to the caller of
  \<open>bthread_make_fcontext\<close>: no instruction of the entry function runs.
\<close>

theorem make_fcontext_builds_frame:
  "(let s' = bthread_make_fcontext fin s; fc = regs s' RAX in
      fc = (regs s RDI AND - 16) - 0x48
    \<and> fc AND 0xF = 8
    \<and> (0x50 \<le> regs s RDI \<longrightarrow> fc < regs s RDI)
    \<and> load64 (mem s') (fc + 0x38) = regs s RDX
    \<and> load64 (mem s') (fc + 0x40) = fin
    \<and> load32 (mem s') fc = mxcsr s
    \<and> load16 (mem s') (fc + 4) = fpu_cw s
    \<and> (\<forall>x. \<not> in_range fc 6 x \<and> \<not> in_range (fc + 0x38) 16 x \<longrightarrow> mem s' x = mem s x)
    \<and> rip s' = load64 (mem s') (regs s RSP)
    \<and> regs s' RSP = regs s RSP + 8
    \<and> regs s' RCX = fin
    \<and> (\<forall>r. r \<noteq> RAX \<and> r \<noteq> RCX \<and> r \<noteq> RSP \<longrightarrow> regs s' r = regs s r)
    \<and> mxcsr s' = mxcsr s \<and> fpu_cw s' = fpu_cw s)"
  unfolding Let_def
  using make_regs [where fin = fin and s = s] make_slots [of fin s] make_fpu_slots [of fin s]
    make_rip [of fin s] make_mem_outside [where fin = fin and s = s]
    frame_not_aligned [of "regs s RDI"]
    frame_below_top [of "regs s RDI"]
  by auto

theorem make_fcontext_builds_frame_witness:
  "0x50 \<le> regs x64_making RDI
   \<and> regs x64_made RAX = 0x7f0000003fb8
   \<and> regs x64_made RAX < regs x64_making RDI
   \<and> load64 (mem x64_made) 0x7f0000003ff0 = 0x402000
   \<and> load64 (mem x64_made) 0x7f0000003ff8 = 0x400f00
   \<and> \<not> in_range (regs x64_made RAX) 6 0x1000
   \<and> \<not> in_range (regs x64_made RAX + 0x38) 16 0x1000
   \<and> mem x64_made 0x1000 = mem x64_making 0x1000
   \<and> rip x64_made = 0x401005
   \<and> regs x64_made RSI = regs x64_making RSI"
  using make_fcontext_builds_frame [where fin = "0x400f00" and s = x64_making]
  by (simp add: x64_demo_defs in_range_def Let_def)

text \<open>
  The frame address in the example: made from the stack top \<open>0x7f0000004000\<close>, it is
  \<open>0x7f0000003fb8\<close>, whose low four bits are not zero.
\<close>

theorem make_fcontext_frame_misaligned_example:
  "regs (bthread_make_fcontext 0x400f00 x64_making) RAX = 0x7f0000003fb8
   \<and> regs (bthread_make_fcontext 0x400f00 x64_making) RAX AND 0xF \<noteq> 0"
  by (simp add: x64_demo_defs)






end
